theory Spec2Isabelle
  imports Main "HOL-Library.Word"
begin

section \<open>Types of the DAC control interface\<close>

type_synonym int32_t = "32 word"

text \<open>
  Modelled from the spec: the enum \<open>AdvancedFeature\<close> of the interface's type file, which is
  not among the sources. The spec names \<open>AVCVolume\<close> and \<open>HifiMode\<close>. The enum is carried as a
  32-bit integer, so a caller can hand over a number that is neither of them; the
  \<open>default:\<close> branches of the switch statements are there for those. \<open>OtherFeature n\<close> stands
  for any such value.
\<close>

datatype AdvancedFeature = AVCVolume | HifiMode | OtherFeature nat

text \<open>
  Modelled from the spec: the structs \<open>Range\<close>, \<open>KeyValue\<close> and \<open>FeatureStates\<close> of the same
  missing type file. The source assigns \<open>states.range.min\<close>, \<open>states.range.max\<close>,
  \<open>states.range.step\<close> and \<open>states.states\<close>, and builds a \<open>KeyValue\<close> from two string literals.
\<close>

record Range =
  min_r :: int32_t
  max_r :: int32_t
  step_r :: int32_t

type_synonym KeyValue = "string \<times> string"

text \<open>
  A C++ local of scalar type that is declared and never assigned holds no defined value.
  \<open>Indeterminate\<close> is that value; \<open>Defined x\<close> is an assigned one.
\<close>

datatype 'a cvalue = Indeterminate | Defined 'a

record FeatureStates =
  range_fs :: "Range cvalue"
  states_fs :: "KeyValue list"

text \<open>
  The macros of \<open>DacAdvancedControl.h\<close>, which is not among the sources: the directory that
  is scanned, the two file names appended to the codec's directory, the two property names
  and the two defaults. Every function below takes them as the parameter \<open>K\<close>.
\<close>

record constants =
  COMMON_ES9218_PATH :: string
  AVC_VOLUME :: string
  HIFI_MODE :: string
  PROPERTY_HIFI_DAC_AVC_VOLUME :: string
  PROPERTY_HIFI_DAC_MODE :: string
  AVC_VOLUME_DEFAULT :: int32_t
  HIFI_MODE_DEFAULT :: int32_t

section \<open>The object and the world it acts on\<close>

text \<open>
  A write the object asks for, whether or not it takes effect: \<open>FileWrite p t\<close> is the text
  \<open>t\<close> streamed into the file \<open>p\<close>, \<open>PropertySet k t\<close> is \<open>property_set(k, t)\<close>.
\<close>

datatype io_event = FileWrite string string | PropertySet string string

text \<open>
  The first four fields are the members of the class. The others are the world: the entries
  a directory iterator yields for a directory (path string and whether it is a directory;
  \<open>None\<close> when the directory cannot be opened), the files that exist with their text,
  which files can be opened for writing, the property store, which properties the property
  service lets this process set, and the log of writes asked for so far.
\<close>

record system =
  mDacBasePath :: string
  avcPath :: string
  hifiPath :: string
  mSupportedAdvancedFeatures :: "AdvancedFeature list"
  dir_entries :: "string \<Rightarrow> (string \<times> bool) list option"
  files :: "string \<rightharpoonup> string"
  file_writable :: "string \<Rightarrow> bool"
  props :: "string \<rightharpoonup> string"
  prop_writable :: "string \<Rightarrow> bool"
  io_log :: "io_event list"

section \<open>Library functions the source calls\<close>

subsection \<open>Decimal text of an integer\<close>

text \<open>
  \<open>std::to_string(int)\<close> and \<open>operator<<(int)\<close> both give the decimal digits, with a
  leading minus sign for a negative number. \<open>digit_char\<close> is only ever asked for a digit
  below ten.
\<close>

definition digit_char :: "nat \<Rightarrow> char" where
  "digit_char d = ''0123456789'' ! d"

fun dec_digits :: "nat \<Rightarrow> string" where
  "dec_digits n =
     (if n < 10 then [digit_char n] else dec_digits (n div 10) @ [digit_char (n mod 10)])"

declare dec_digits.simps [simp del]

definition to_string :: "int \<Rightarrow> string" where
  "to_string i = (if i < 0 then CHR ''-'' # dec_digits (nat (- i)) else dec_digits (nat i))"

subsection \<open>\<open>strtoimax\<close> with base 0\<close>

text \<open>
  The C library's conversion as the standard describes it: white space is skipped, a sign
  is optional, \<open>0x\<close> or \<open>0X\<close> before a hexadecimal digit selects base 16, a leading \<open>0\<close>
  base 8, anything else base 10; the longest run of digits of that base is converted and
  what follows is ignored. The result is \<open>None\<close> when no digit could be converted (the
  end pointer is left at the start). The number is not bounded here: the caller checks it
  against the 32-bit range, which also covers the library's own overflow report.
\<close>

definition isspace :: "char \<Rightarrow> bool" where
  "isspace c = (c \<in> set [CHR '' '', CHR 0x09, CHR 0x0A, CHR 0x0B, CHR 0x0C, CHR 0x0D])"

definition digit_value :: "char \<Rightarrow> nat option" where
  "digit_value c =
     (let n = (of_char c :: nat) in
      if 48 \<le> n \<and> n \<le> 57 then Some (n - 48)
      else if 97 \<le> n \<and> n \<le> 122 then Some (n - 87)
      else if 65 \<le> n \<and> n \<le> 90 then Some (n - 55)
      else None)"

definition is_digit_of :: "nat \<Rightarrow> char \<Rightarrow> bool" where
  "is_digit_of b c = (case digit_value c of None \<Rightarrow> False | Some d \<Rightarrow> d < b)"

definition digits_value :: "nat \<Rightarrow> string \<Rightarrow> nat" where
  "digits_value b cs =
     foldl (\<lambda>a c. case digit_value c of None \<Rightarrow> a | Some d \<Rightarrow> a * b + d) 0 cs"

definition strip_sign :: "string \<Rightarrow> bool \<times> string" where
  "strip_sign cs =
     (case cs of
        [] \<Rightarrow> (False, [])
      | c # r \<Rightarrow> if c = CHR ''-'' then (True, r) else if c = CHR ''+'' then (False, r)
                 else (False, cs))"

definition radix_split :: "string \<Rightarrow> nat \<times> string" where
  "radix_split cs =
     (case cs of
        c0 # c1 # c2 # r \<Rightarrow>
          if c0 = CHR ''0'' \<and> (c1 = CHR ''x'' \<or> c1 = CHR ''X'') \<and> is_digit_of 16 c2
          then (16, c2 # r)
          else if c0 = CHR ''0'' then (8, cs) else (10, cs)
      | c0 # r \<Rightarrow> if c0 = CHR ''0'' then (8, cs) else (10, cs)
      | [] \<Rightarrow> (10, cs))"

definition strtoimax :: "string \<Rightarrow> int option" where
  "strtoimax str =
     (let (neg, body) = strip_sign (dropWhile isspace str);
          (b, rest) = radix_split body;
          ds = takeWhile (is_digit_of b) rest
      in if ds = [] then None
         else Some (if neg then - int (digits_value b ds) else int (digits_value b ds)))"

subsection \<open>The property store\<close>

text \<open>
  \<open>property_set\<close> returns 0 when the property was set and a negative number when it was
  not; the store changes only in the first case. The texts the source hands over are decimal
  32-bit numbers, at most eleven characters, so the store's limit on the length of a value
  plays no part.
\<close>

definition property_set :: "string \<Rightarrow> string \<Rightarrow> system \<Rightarrow> int \<times> system" where
  "property_set key val s =
     (let s' = s\<lparr>io_log := io_log s @ [PropertySet key val]\<rparr>
      in if prop_writable s key then (0, s'\<lparr>props := (props s)(key \<mapsto> val)\<rparr>)
         else (- 1, s'))"

text \<open>
  \<open>property_get_int32\<close> reads the property's text and converts it with \<open>strtoimax\<close>. The
  default comes back when the property is missing or empty, when nothing could be converted
  and when the number does not fit 32 bits.
\<close>

definition property_get_int32 :: "string \<Rightarrow> int32_t \<Rightarrow> system \<Rightarrow> int32_t" where
  "property_get_int32 key default_value s =
     (case props s key of
        None \<Rightarrow> default_value
      | Some txt \<Rightarrow>
          if txt = [] then default_value
          else (case strtoimax txt of
                  None \<Rightarrow> default_value
                | Some n \<Rightarrow>
                    if n < - (2 ^ 31) \<or> 2 ^ 31 - 1 < n then default_value
                    else word_of_int n))"

subsection \<open>Files\<close>

text \<open>
  The source's template \<open>set\<close>: an output stream is opened on the path and the value is
  streamed into it. Nothing checks the stream, so a file that cannot be opened is left as it
  was. Both calls in the source pass an \<open>int\<close>.
\<close>

definition set_file :: "string \<Rightarrow> int \<Rightarrow> system \<Rightarrow> system" where
  "set_file path v s =
     (let s' = s\<lparr>io_log := io_log s @ [FileWrite path (to_string v)]\<rparr>
      in if file_writable s path then s'\<lparr>files := (files s)(path \<mapsto> to_string v)\<rparr>
         else s')"

text \<open>
  \<open>std::filesystem::exists\<close>: whether anything exists at the path. (It reports an error
  only when the path cannot be examined at all; the two paths the constructor asks about lie
  in a directory it has just found by listing, and this case is left out.)
\<close>

definition exists_file :: "system \<Rightarrow> string \<Rightarrow> bool" where
  "exists_file s path = (files s path \<noteq> None)"

text \<open>\<open>std::string::find(pat) != npos\<close>: the pattern occurs somewhere in the text.\<close>

fun starts_with :: "string \<Rightarrow> string \<Rightarrow> bool" where
  "starts_with [] cs = True"
| "starts_with (p # ps) [] = False"
| "starts_with (p # ps) (c # cs) = (p = c \<and> starts_with ps cs)"

fun find_substr :: "string \<Rightarrow> string \<Rightarrow> bool" where
  "find_substr pat [] = (pat = [])"
| "find_substr pat (c # cs) = (starts_with pat (c # cs) \<or> find_substr pat cs)"

section \<open>DacAdvancedControl\<close>

subsection \<open>Reading and writing one feature\<close>

definition getAvcVolumeState :: "constants \<Rightarrow> system \<Rightarrow> int32_t" where
  "getAvcVolumeState K s =
     property_get_int32 (PROPERTY_HIFI_DAC_AVC_VOLUME K) (AVC_VOLUME_DEFAULT K) s"

definition getHifiModeState :: "constants \<Rightarrow> system \<Rightarrow> int32_t" where
  "getHifiModeState K s =
     property_get_int32 (PROPERTY_HIFI_DAC_MODE K) (HIFI_MODE_DEFAULT K) s"

text \<open>
  The C++ cast \<open>(bool)n\<close> of an integer is \<open>n \<noteq> 0\<close>. The product \<open>(-1)*value\<close> is
  computed in 32 bits.
\<close>

definition writeAvcVolumeState :: "constants \<Rightarrow> int32_t \<Rightarrow> system \<Rightarrow> bool \<times> system" where
  "writeAvcVolumeState K v s =
     (let s1 = set_file (avcPath s) (sint ((- 1) * v)) s;
          (rc, s2) = property_set (PROPERTY_HIFI_DAC_AVC_VOLUME K) (to_string (sint v)) s1
      in (rc \<noteq> 0, s2))"

definition writeHifiModeState :: "constants \<Rightarrow> int32_t \<Rightarrow> system \<Rightarrow> bool \<times> system" where
  "writeHifiModeState K v s =
     (let s1 = set_file (hifiPath s) (sint v) s;
          (rc, s2) = property_set (PROPERTY_HIFI_DAC_MODE K) (to_string (sint v)) s1
      in (rc \<noteq> 0, s2))"

subsection \<open>The constructor\<close>

text \<open>
  The loop over the directory's entries: the first entry that is a directory and whose path
  string contains \<open>0048\<close> becomes the base path; the base path stays empty when there is none.
\<close>

fun find_es9218 :: "(string \<times> bool) list \<Rightarrow> string" where
  "find_es9218 [] = []"
| "find_es9218 ((p, is_directory) # es) =
     (if is_directory \<and> find_substr ''0048'' p then p else find_es9218 es)"

datatype error = FilesystemError

text \<open>
  The members start empty. A directory that cannot be opened makes the iterator's constructor
  throw, which nothing catches. Otherwise the constructor returns: early, with the members
  still empty, when no base path was found, and at its end after the two probes.
\<close>

definition DacAdvancedControl :: "constants \<Rightarrow> system \<Rightarrow> error + system" where
  "DacAdvancedControl K w =
     (case dir_entries w (COMMON_ES9218_PATH K) of
        None \<Rightarrow> Inl FilesystemError
      | Some es \<Rightarrow>
          Inr (let s0 = w\<lparr>mDacBasePath := find_es9218 es, avcPath := [], hifiPath := [],
                          mSupportedAdvancedFeatures := []\<rparr>
               in if mDacBasePath s0 = [] then s0
                  else
                    (let s1 = s0\<lparr>avcPath := mDacBasePath s0 @ AVC_VOLUME K,
                                  hifiPath := mDacBasePath s0 @ HIFI_MODE K\<rparr>;
                         s2 = (if exists_file s1 (avcPath s1)
                               then (let a = s1\<lparr>mSupportedAdvancedFeatures :=
                                                  mSupportedAdvancedFeatures s1 @ [AVCVolume]\<rparr>
                                     in snd (writeAvcVolumeState K (getAvcVolumeState K a) a))
                               else s1);
                         s3 = (if exists_file s2 (hifiPath s2)
                               then (let h = s2\<lparr>mSupportedAdvancedFeatures :=
                                                  mSupportedAdvancedFeatures s2 @ [HifiMode]\<rparr>
                                     in snd (writeHifiModeState K (getHifiModeState K h) h))
                               else s2)
                     in s3)))"

subsection \<open>The interface's four methods\<close>

definition getSupportedAdvancedFeatures :: "system \<Rightarrow> AdvancedFeature list" where
  "getSupportedAdvancedFeatures s = mSupportedAdvancedFeatures s"

definition getAvcVolumeStates :: FeatureStates where
  "getAvcVolumeStates =
     \<lparr>range_fs = Defined \<lparr>min_r = - 24, max_r = 0, step_r = 1\<rparr>, states_fs = []\<rparr>"

definition hifi_modes :: "KeyValue list" where
  "hifi_modes = [(''Normal'', ''0''), (''High Impedance'', ''1''), (''AUX'', ''2'')]"

definition getHifiModeStates :: FeatureStates where
  "getHifiModeStates = \<lparr>range_fs = Indeterminate, states_fs = hifi_modes\<rparr>"

text \<open>
  The result is the argument the callback is invoked with, \<open>None\<close> when the method returns
  without invoking it.
\<close>

definition getSupportedAdvancedFeatureValues ::
    "AdvancedFeature \<Rightarrow> system \<Rightarrow> FeatureStates option" where
  "getSupportedAdvancedFeatureValues feature s =
     (if List.find (\<lambda>f. f = feature) (mSupportedAdvancedFeatures s) \<noteq> None
      then (case feature of
              AVCVolume \<Rightarrow> Some getAvcVolumeStates
            | HifiMode \<Rightarrow> Some getHifiModeStates
            | OtherFeature n \<Rightarrow> None)
      else None)"

text \<open>The search loop of \<open>setFeatureValue\<close> and \<open>getFeatureValue\<close>.\<close>

fun feature_available :: "AdvancedFeature \<Rightarrow> AdvancedFeature list \<Rightarrow> bool" where
  "feature_available feature [] = False"
| "feature_available feature (f # fs) = (if f = feature then True else feature_available feature fs)"

definition setFeatureValue ::
    "constants \<Rightarrow> AdvancedFeature \<Rightarrow> int32_t \<Rightarrow> system \<Rightarrow> bool \<times> system" where
  "setFeatureValue K feature v s =
     (if \<not> feature_available feature (mSupportedAdvancedFeatures s) then (False, s)
      else (case feature of
              AVCVolume \<Rightarrow> writeAvcVolumeState K v s
            | HifiMode \<Rightarrow> writeHifiModeState K v s
            | OtherFeature n \<Rightarrow> (False, s)))"

text \<open>
  \<open>ret\<close> is declared without a value; the \<open>default:\<close> branch leaves it so and returns it.
\<close>

definition getFeatureValue :: "constants \<Rightarrow> AdvancedFeature \<Rightarrow> system \<Rightarrow> int32_t cvalue" where
  "getFeatureValue K feature s =
     (if \<not> feature_available feature (mSupportedAdvancedFeatures s) then Defined (- 1)
      else (case feature of
              AVCVolume \<Rightarrow> Defined (getAvcVolumeState K s)
            | HifiMode \<Rightarrow> Defined (getHifiModeState K s)
            | OtherFeature n \<Rightarrow> Indeterminate))"

subsection \<open>Sequences of calls\<close>

text \<open>
  What can happen to a constructed object: one of the four methods is called, or somebody
  else changes the world (\<open>Outside w\<close> replaces the directories, files and properties by
  those of \<open>w\<close>).
\<close>

datatype call =
    GetSupportedAdvancedFeatures
  | GetSupportedAdvancedFeatureValues AdvancedFeature
  | GetFeatureValue AdvancedFeature
  | SetFeatureValue AdvancedFeature int32_t
  | Outside system

fun perform :: "constants \<Rightarrow> call \<Rightarrow> system \<Rightarrow> system" where
  "perform K GetSupportedAdvancedFeatures s = s"
| "perform K (GetSupportedAdvancedFeatureValues f) s = s"
| "perform K (GetFeatureValue f) s = s"
| "perform K (SetFeatureValue f v) s = snd (setFeatureValue K f v s)"
| "perform K (Outside w) s =
     s\<lparr>dir_entries := dir_entries w, files := files w, file_writable := file_writable w,
       props := props w, prop_writable := prop_writable w\<rparr>"

fun run :: "constants \<Rightarrow> call list \<Rightarrow> system \<Rightarrow> system" where
  "run K [] s = s"
| "run K (c # cs) s = run K cs (perform K c s)"

section \<open>A device for the examples\<close>

definition K0 :: constants where
  "K0 = \<lparr>COMMON_ES9218_PATH = ''/sys/es9218/'',
         AVC_VOLUME = ''/avc_volume'',
         HIFI_MODE = ''/headset_type'',
         PROPERTY_HIFI_DAC_AVC_VOLUME = ''persist.dac.avc_volume'',
         PROPERTY_HIFI_DAC_MODE = ''persist.dac.mode'',
         AVC_VOLUME_DEFAULT = - 14,
         HIFI_MODE_DEFAULT = 0\<rparr>"

text \<open>
  A world with the codec at \<open>/sys/es9218/6-0048\<close>, both control files present and
  everything writable, and nothing constructed yet.
\<close>

definition w0 :: system where
  "w0 = \<lparr>mDacBasePath = [], avcPath = [], hifiPath = [], mSupportedAdvancedFeatures = [],
         dir_entries = (\<lambda>d. if d = ''/sys/es9218/''
                             then Some [(''/sys/es9218/module'', False), (''/sys/es9218/6-0048'', True)]
                             else None),
         files = [''/sys/es9218/6-0048/avc_volume'' \<mapsto> ''14'',
                  ''/sys/es9218/6-0048/headset_type'' \<mapsto> ''0''],
         file_writable = (\<lambda>p. True),
         props = Map.empty,
         prop_writable = (\<lambda>k. True),
         io_log = []\<rparr>"

text \<open>The object the constructor builds in that world.\<close>

definition s0 :: system where
  "s0 = (case DacAdvancedControl K0 w0 of Inr s \<Rightarrow> s | Inl e \<Rightarrow> w0)"

text \<open>
  The same device with a property service that refuses every write; the volume property has
  never been set and the mode property holds a text that is no number.
\<close>

definition w_ro :: system where
  "w_ro = w0\<lparr>props := [''persist.dac.mode'' \<mapsto> ''abc''], prop_writable := (\<lambda>k. False)\<rparr>"

definition s_ro :: system where
  "s_ro = (case DacAdvancedControl K0 w_ro of Inr s \<Rightarrow> s | Inl e \<Rightarrow> w_ro)"

text \<open>
  A device whose driver offers the volume file only, while a mode of 2 is still persisted.
\<close>

definition w_avc :: system where
  "w_avc = w0\<lparr>files := [''/sys/es9218/6-0048/avc_volume'' \<mapsto> ''14''],
              props := [''persist.dac.mode'' \<mapsto> ''2'']\<rparr>"

definition s_avc :: system where
  "s_avc = (case DacAdvancedControl K0 w_avc of Inr s \<Rightarrow> s | Inl e \<Rightarrow> w_avc)"

text \<open>
  A world without the codec: one entry is a directory of another name, the other has the
  number in its name and is no directory.
\<close>

definition w_none :: system where
  "w_none = w0\<lparr>dir_entries := (\<lambda>d. if d = ''/sys/es9218/''
                                      then Some [(''/sys/es9218/module'', True),
                                                 (''/sys/es9218/0048.log'', False)]
                                      else None)\<rparr>"

text \<open>A device on which the scanned directory does not exist.\<close>

definition w_gone :: system where
  "w_gone = w0\<lparr>dir_entries := (\<lambda>d. None)\<rparr>"

text \<open>
  The device whose property service refuses every write, with a volume of -5 persisted.
\<close>

definition w_held :: system where
  "w_held = w0\<lparr>props := [''persist.dac.avc_volume'' \<mapsto> ''-5''], prop_writable := (\<lambda>k. False)\<rparr>"

definition s_held :: system where
  "s_held = (case DacAdvancedControl K0 w_held of Inr s \<Rightarrow> s | Inl e \<Rightarrow> w_held)"

text \<open>
  The example device after somebody else has set the mode property to a text that starts
  with a number and goes on with letters.
\<close>

definition w_junk :: system where
  "w_junk = w0\<lparr>props := [''persist.dac.mode'' \<mapsto> ''12abc'']\<rparr>"

definition s_junk :: system where
  "s_junk = perform K0 (Outside w_junk) s0"

section \<open>Decimal text converts back to its number\<close>

text \<open>
  The digits \<open>dec_digits\<close> writes are decimal digits with no leading zero (but for the
  number 0 itself), so \<open>strtoimax\<close> chooses base 10 (base 8 for the lone \<open>0\<close>), takes
  all of them and gets the number back.
\<close>

lemma digit_char_cases:
  "d < 10 \<Longrightarrow> d = 0 \<or> d = 1 \<or> d = 2 \<or> d = 3 \<or> d = 4 \<or> d = 5 \<or> d = 6 \<or> d = 7 \<or> d = 8 \<or> d = (9::nat)"
  by arith

lemma digit_value_digit_char: "d < 10 \<Longrightarrow> digit_value (digit_char d) = Some d"
  using digit_char_cases [of d] by (auto simp: digit_value_def digit_char_def)

lemma digit_char_not_special:
  "d < 10 \<Longrightarrow> \<not> isspace (digit_char d) \<and> digit_char d \<noteq> CHR ''-'' \<and> digit_char d \<noteq> CHR ''+''"
  using digit_char_cases [of d] by (auto simp: isspace_def digit_char_def)

lemma digit_char_zero: "d < 10 \<Longrightarrow> (digit_char d = CHR ''0'') = (d = 0)"
  using digit_char_cases [of d] by (auto simp: digit_char_def)

lemma digits_value_snoc:
  "digits_value b (cs @ [c]) =
     (case digit_value c of None \<Rightarrow> digits_value b cs | Some d \<Rightarrow> digits_value b cs * b + d)"
  by (simp add: digits_value_def split: option.split)

lemma dec_digits_not_Nil: "dec_digits n \<noteq> []"
  by (subst dec_digits.simps) simp

lemma dec_digits_all_decimal: "c \<in> set (dec_digits n) \<Longrightarrow> is_digit_of 10 c"
proof (induction n rule: dec_digits.induct)
  case (1 n)
  show ?case
  proof (cases "n < 10")
    case True
    with "1.prems" show ?thesis
      by (subst (asm) dec_digits.simps) (simp add: is_digit_of_def digit_value_digit_char)
  next
    case False
    with "1.prems" have "c \<in> set (dec_digits (n div 10)) \<or> c = digit_char (n mod 10)"
      by (subst (asm) dec_digits.simps) auto
    with False "1.IH" show ?thesis
      by (auto simp: is_digit_of_def digit_value_digit_char)
  qed
qed

lemma digits_value_dec_digits: "digits_value 10 (dec_digits n) = n"
proof (induction n rule: dec_digits.induct)
  case (1 n)
  show ?case
  proof (cases "n < 10")
    case True
    then show ?thesis
      by (subst dec_digits.simps) (simp add: digits_value_def digit_value_digit_char)
  next
    case False
    with "1.IH" have "digits_value 10 (dec_digits (n div 10)) = n div 10" by simp
    with False show ?thesis
      by (subst dec_digits.simps) (simp add: digits_value_snoc digit_value_digit_char)
  qed
qed

lemma hd_dec_digits: "\<exists>d<10. hd (dec_digits n) = digit_char d \<and> (d = 0) = (n = 0)"
proof (induction n rule: dec_digits.induct)
  case (1 n)
  show ?case
  proof (cases "n < 10")
    case True
    then show ?thesis by (subst dec_digits.simps) auto
  next
    case False
    with "1.IH" obtain d where "d < 10" "hd (dec_digits (n div 10)) = digit_char d" "(d = 0) = (n div 10 = 0)"
      by auto
    with False show ?thesis
      by (subst dec_digits.simps) (auto simp: dec_digits_not_Nil)
  qed
qed

lemma dec_digits_0: "dec_digits 0 = ''0''"
  by (simp add: dec_digits.simps digit_char_def)

lemma takeWhile_dec_digits: "takeWhile (is_digit_of 10) (dec_digits n) = dec_digits n"
  by (simp add: takeWhile_eq_all_conv dec_digits_all_decimal)

lemma dropWhile_dec_digits: "dropWhile isspace (dec_digits n) = dec_digits n"
proof -
  obtain c cs where e: "dec_digits n = c # cs"
    using dec_digits_not_Nil [of n] by (cases "dec_digits n") auto
  from hd_dec_digits [of n] e obtain d where "d < 10" "c = digit_char d" by auto
  with e show ?thesis by (simp add: digit_char_not_special)
qed

lemma strip_sign_dec_digits: "strip_sign (dec_digits n) = (False, dec_digits n)"
proof -
  obtain c cs where e: "dec_digits n = c # cs"
    using dec_digits_not_Nil [of n] by (cases "dec_digits n") auto
  from hd_dec_digits [of n] e obtain d where "d < 10" "c = digit_char d" by auto
  with e show ?thesis by (simp add: strip_sign_def digit_char_not_special)
qed

lemma radix_split_dec_digits: "0 < n \<Longrightarrow> radix_split (dec_digits n) = (10, dec_digits n)"
proof -
  assume n: "0 < n"
  obtain c cs where e: "dec_digits n = c # cs"
    using dec_digits_not_Nil [of n] by (cases "dec_digits n") auto
  from hd_dec_digits [of n] e n obtain d where "d < 10" "c = digit_char d" "d \<noteq> 0" by auto
  then have "c \<noteq> CHR ''0''" by (simp add: digit_char_zero)
  with e show ?thesis by (simp add: radix_split_def split: list.splits)
qed

lemma strtoimax_dec_digits: "strtoimax (dec_digits n) = Some (int n)"
proof (cases "n = 0")
  case True
  then show ?thesis
    by (simp add: dec_digits_0 strtoimax_def isspace_def strip_sign_def radix_split_def
        is_digit_of_def digit_value_def digits_value_def)
next
  case False
  then show ?thesis
    by (simp add: strtoimax_def dropWhile_dec_digits strip_sign_dec_digits
        radix_split_dec_digits takeWhile_dec_digits dec_digits_not_Nil digits_value_dec_digits)
qed

lemma strtoimax_minus_dec_digits:
  "0 < n \<Longrightarrow> strtoimax (CHR ''-'' # dec_digits n) = Some (- int n)"
  by (simp add: strtoimax_def isspace_def strip_sign_def
      radix_split_dec_digits takeWhile_dec_digits dec_digits_not_Nil digits_value_dec_digits)

lemma strtoimax_to_string: "strtoimax (to_string i) = Some i"
  by (simp add: to_string_def strtoimax_dec_digits strtoimax_minus_dec_digits)

lemma dec_digits_Cons: "\<exists>d ds. d < 10 \<and> dec_digits n = digit_char d # ds \<and> (d = 0) = (n = 0)"
proof -
  obtain c cs where e: "dec_digits n = c # cs"
    using dec_digits_not_Nil [of n] by (cases "dec_digits n") auto
  from hd_dec_digits [of n] e show ?thesis by auto
qed

lemma strtoimax_dec_digits_then:
  assumes "0 < n" and "\<not> is_digit_of 10 c"
  shows "strtoimax (dec_digits n @ c # rest) = Some (int n)"
proof -
  from dec_digits_Cons [of n] assms(1) obtain d ds
    where d: "d < 10" "dec_digits n = digit_char d # ds" "d \<noteq> 0" by auto
  have z: "digit_char d \<noteq> CHR ''0''" using d by (simp add: digit_char_zero)
  have sp: "dropWhile isspace (dec_digits n @ c # rest) = dec_digits n @ c # rest"
    using d by (simp add: digit_char_not_special)
  have sg: "strip_sign (dec_digits n @ c # rest) = (False, dec_digits n @ c # rest)"
    using d by (simp add: strip_sign_def digit_char_not_special)
  have rx: "radix_split (dec_digits n @ c # rest) = (10, dec_digits n @ c # rest)"
    using d z by (simp add: radix_split_def split: list.splits)
  have tk: "takeWhile (is_digit_of 10) (dec_digits n @ c # rest) = dec_digits n"
    using assms(2) by (simp add: takeWhile_append2 dec_digits_all_decimal)
  show ?thesis
    by (simp add: strtoimax_def sp sg rx tk dec_digits_not_Nil digits_value_dec_digits)
qed

lemma strtoimax_minus_dec_digits_then:
  assumes "0 < n" and "\<not> is_digit_of 10 c"
  shows "strtoimax (CHR ''-'' # dec_digits n @ c # rest) = Some (- int n)"
proof -
  from dec_digits_Cons [of n] assms(1) obtain d ds
    where d: "d < 10" "dec_digits n = digit_char d # ds" "d \<noteq> 0" by auto
  have z: "digit_char d \<noteq> CHR ''0''" using d by (simp add: digit_char_zero)
  have rx: "radix_split (dec_digits n @ c # rest) = (10, dec_digits n @ c # rest)"
    using d z by (simp add: radix_split_def split: list.splits)
  have tk: "takeWhile (is_digit_of 10) (dec_digits n @ c # rest) = dec_digits n"
    using assms(2) by (simp add: takeWhile_append2 dec_digits_all_decimal)
  show ?thesis
    by (simp add: strtoimax_def isspace_def strip_sign_def rx tk dec_digits_not_Nil
        digits_value_dec_digits)
qed

lemma strtoimax_to_string_then:
  "i \<noteq> 0 \<Longrightarrow> \<not> is_digit_of 10 c \<Longrightarrow> strtoimax (to_string i @ c # rest) = Some i"
  by (simp add: to_string_def strtoimax_dec_digits_then strtoimax_minus_dec_digits_then)

lemma to_string_not_Nil: "to_string i \<noteq> []"
  by (simp add: to_string_def dec_digits_not_Nil)

lemma property_get_int32_to_string:
  "props s key = Some (to_string (sint v)) \<Longrightarrow> property_get_int32 key d s = v"
proof -
  assume p: "props s key = Some (to_string (sint v))"
  have lo: "- (2 ^ 31) \<le> sint v" using sint_ge [of v] by simp
  have hi: "sint v < 2 ^ 31" using sint_lt [of v] by simp
  from p lo hi show ?thesis
    by (simp add: property_get_int32_def to_string_not_Nil strtoimax_to_string)
qed

lemma property_get_int32_default:
  "props s key = None \<or>
   (\<exists>txt. props s key = Some txt \<and>
      (txt = [] \<or> strtoimax txt = None \<or>
       (\<exists>n. strtoimax txt = Some n \<and> (n < - (2 ^ 31) \<or> 2 ^ 31 - 1 < n)))) \<Longrightarrow>
   property_get_int32 key d s = d"
  by (auto simp: property_get_int32_def)

lemma strtoimax_Nil: "strtoimax [] = None"
  by (simp add: strtoimax_def strip_sign_def radix_split_def)

lemma property_get_int32_number:
  "props s key = Some txt \<Longrightarrow> strtoimax txt = Some n \<Longrightarrow> - (2 ^ 31) \<le> n \<Longrightarrow>
   n \<le> 2 ^ 31 - 1 \<Longrightarrow> property_get_int32 key d s = word_of_int n"
  by (auto simp: property_get_int32_def strtoimax_Nil)

lemma length_dec_digits: "0 < k \<Longrightarrow> n < 10 ^ k \<Longrightarrow> length (dec_digits n) \<le> k"
proof (induction n arbitrary: k rule: dec_digits.induct)
  case (1 n)
  show ?case
  proof (cases "n < 10")
    case True
    with "1.prems" show ?thesis by (subst dec_digits.simps) simp
  next
    case False
    with "1.prems" have k: "1 < k"
      by (cases "k = 1") auto
    then obtain j where j: "k = Suc j" "0 < j"
      by (cases k) auto
    from "1.prems" j have "n div 10 < 10 ^ j"
      by (simp add: less_mult_imp_div_less mult.commute)
    with "1.IH" [OF False j(2)] have "length (dec_digits (n div 10)) \<le> j" by simp
    with False j show ?thesis by (subst dec_digits.simps) simp
  qed
qed

lemma length_to_string_int32: "length (to_string (sint (v :: int32_t))) \<le> 11"
proof -
  have lo: "- (2 ^ 31) \<le> sint v" using sint_ge [of v] by simp
  have hi: "sint v < 2 ^ 31" using sint_lt [of v] by simp
  have "nat (- sint v) < 10 ^ 10" "nat (sint v) < 10 ^ 10"
    using lo hi by simp_all
  then have "length (dec_digits (nat (- sint v))) \<le> 10" "length (dec_digits (nat (sint v))) \<le> 10"
    by (simp_all add: length_dec_digits)
  then show ?thesis by (simp add: to_string_def)
qed

section \<open>What the helpers change\<close>

lemma feature_available_iff: "feature_available feature fs = (feature \<in> set fs)"
  by (induction fs) auto

lemma find_feature_iff: "(List.find (\<lambda>f. f = feature) fs = None) = (feature \<notin> set fs)"
  by (induction fs) auto

lemma sint_neg_one_times:
  "v \<noteq> (- 2147483648 :: int32_t) \<Longrightarrow> sint ((- 1) * v) = - sint v"
proof -
  assume ne: "v \<noteq> (- 2147483648 :: int32_t)"
  have "sint v \<noteq> - 2147483648"
  proof
    assume "sint v = - 2147483648"
    then have "word_of_int (sint v) = (word_of_int (- 2147483648) :: int32_t)" by simp
    then have "v = - 2147483648" by simp
    with ne show False by simp
  qed
  moreover have "- (2 ^ 31) \<le> sint v" using sint_ge [of v] by simp
  moreover have "sint v < 2 ^ 31" using sint_lt [of v] by simp
  ultimately have "- (2 ^ 31) \<le> - sint v \<and> - sint v < 2 ^ 31" by simp
  then have "signed_take_bit 31 (- sint v) = - sint v"
    by (simp add: signed_take_bit_int_eq_self)
  then show ?thesis by (simp add: sint_word_ariths)
qed

lemma set_file_fields:
  "mSupportedAdvancedFeatures (set_file p n s) = mSupportedAdvancedFeatures s"
  "mDacBasePath (set_file p n s) = mDacBasePath s"
  "avcPath (set_file p n s) = avcPath s"
  "hifiPath (set_file p n s) = hifiPath s"
  "props (set_file p n s) = props s"
  "prop_writable (set_file p n s) = prop_writable s"
  "file_writable (set_file p n s) = file_writable s"
  "dir_entries (set_file p n s) = dir_entries s"
  "io_log (set_file p n s) = io_log s @ [FileWrite p (to_string n)]"
  "files (set_file p n s) = (if file_writable s p then (files s)(p \<mapsto> to_string n) else files s)"
  by (simp_all add: set_file_def Let_def)

lemma property_set_fields:
  "mSupportedAdvancedFeatures (snd (property_set k t s)) = mSupportedAdvancedFeatures s"
  "mDacBasePath (snd (property_set k t s)) = mDacBasePath s"
  "avcPath (snd (property_set k t s)) = avcPath s"
  "hifiPath (snd (property_set k t s)) = hifiPath s"
  "files (snd (property_set k t s)) = files s"
  "prop_writable (snd (property_set k t s)) = prop_writable s"
  "file_writable (snd (property_set k t s)) = file_writable s"
  "dir_entries (snd (property_set k t s)) = dir_entries s"
  "io_log (snd (property_set k t s)) = io_log s @ [PropertySet k t]"
  "props (snd (property_set k t s)) = (if prop_writable s k then (props s)(k \<mapsto> t) else props s)"
  "fst (property_set k t s) = (if prop_writable s k then 0 else - 1)"
  by (simp_all add: property_set_def Let_def)

lemma writeAvcVolumeState_result:
  "fst (writeAvcVolumeState K v s) = (\<not> prop_writable s (PROPERTY_HIFI_DAC_AVC_VOLUME K))"
  by (simp add: writeAvcVolumeState_def Let_def split_beta property_set_fields set_file_fields)

lemma writeAvcVolumeState_state:
  "snd (writeAvcVolumeState K v s) =
     snd (property_set (PROPERTY_HIFI_DAC_AVC_VOLUME K) (to_string (sint v))
            (set_file (avcPath s) (sint ((- 1) * v)) s))"
  by (simp add: writeAvcVolumeState_def Let_def split_beta)

lemma writeHifiModeState_result:
  "fst (writeHifiModeState K v s) = (\<not> prop_writable s (PROPERTY_HIFI_DAC_MODE K))"
  by (simp add: writeHifiModeState_def Let_def split_beta property_set_fields set_file_fields)

lemma writeHifiModeState_state:
  "snd (writeHifiModeState K v s) =
     snd (property_set (PROPERTY_HIFI_DAC_MODE K) (to_string (sint v))
            (set_file (hifiPath s) (sint v) s))"
  by (simp add: writeHifiModeState_def Let_def split_beta)

lemma writeAvcVolumeState_fields:
  "mSupportedAdvancedFeatures (snd (writeAvcVolumeState K v s)) = mSupportedAdvancedFeatures s"
  "mDacBasePath (snd (writeAvcVolumeState K v s)) = mDacBasePath s"
  "avcPath (snd (writeAvcVolumeState K v s)) = avcPath s"
  "hifiPath (snd (writeAvcVolumeState K v s)) = hifiPath s"
  "prop_writable (snd (writeAvcVolumeState K v s)) = prop_writable s"
  "file_writable (snd (writeAvcVolumeState K v s)) = file_writable s"
  "dir_entries (snd (writeAvcVolumeState K v s)) = dir_entries s"
  "io_log (snd (writeAvcVolumeState K v s)) =
     io_log s @ [FileWrite (avcPath s) (to_string (sint ((- 1) * v))),
                 PropertySet (PROPERTY_HIFI_DAC_AVC_VOLUME K) (to_string (sint v))]"
  "files (snd (writeAvcVolumeState K v s)) =
     (if file_writable s (avcPath s)
      then (files s)(avcPath s \<mapsto> to_string (sint ((- 1) * v))) else files s)"
  "props (snd (writeAvcVolumeState K v s)) =
     (if prop_writable s (PROPERTY_HIFI_DAC_AVC_VOLUME K)
      then (props s)(PROPERTY_HIFI_DAC_AVC_VOLUME K \<mapsto> to_string (sint v)) else props s)"
  by (simp_all add: writeAvcVolumeState_state property_set_fields set_file_fields)

lemma writeHifiModeState_fields:
  "mSupportedAdvancedFeatures (snd (writeHifiModeState K v s)) = mSupportedAdvancedFeatures s"
  "mDacBasePath (snd (writeHifiModeState K v s)) = mDacBasePath s"
  "avcPath (snd (writeHifiModeState K v s)) = avcPath s"
  "hifiPath (snd (writeHifiModeState K v s)) = hifiPath s"
  "prop_writable (snd (writeHifiModeState K v s)) = prop_writable s"
  "file_writable (snd (writeHifiModeState K v s)) = file_writable s"
  "dir_entries (snd (writeHifiModeState K v s)) = dir_entries s"
  "io_log (snd (writeHifiModeState K v s)) =
     io_log s @ [FileWrite (hifiPath s) (to_string (sint v)),
                 PropertySet (PROPERTY_HIFI_DAC_MODE K) (to_string (sint v))]"
  "files (snd (writeHifiModeState K v s)) =
     (if file_writable s (hifiPath s)
      then (files s)(hifiPath s \<mapsto> to_string (sint v)) else files s)"
  "props (snd (writeHifiModeState K v s)) =
     (if prop_writable s (PROPERTY_HIFI_DAC_MODE K)
      then (props s)(PROPERTY_HIFI_DAC_MODE K \<mapsto> to_string (sint v)) else props s)"
  by (simp_all add: writeHifiModeState_state property_set_fields set_file_fields)

lemma setFeatureValue_supported:
  "mSupportedAdvancedFeatures (snd (setFeatureValue K f v s)) = mSupportedAdvancedFeatures s"
  by (simp add: setFeatureValue_def writeAvcVolumeState_state writeHifiModeState_state
      property_set_fields set_file_fields split: AdvancedFeature.split)

lemma perform_supported:
  "mSupportedAdvancedFeatures (perform K c s) = mSupportedAdvancedFeatures s"
  by (cases c) (simp_all add: setFeatureValue_supported)

lemma run_supported:
  "mSupportedAdvancedFeatures (run K cs s) = mSupportedAdvancedFeatures s"
  by (induction cs arbitrary: s) (simp_all add: perform_supported)

lemma getFeatureValue_AVCVolume:
  "AVCVolume \<in> set (mSupportedAdvancedFeatures s) \<Longrightarrow>
   getFeatureValue K AVCVolume s =
     Defined (property_get_int32 (PROPERTY_HIFI_DAC_AVC_VOLUME K) (AVC_VOLUME_DEFAULT K) s)"
  by (simp add: getFeatureValue_def feature_available_iff getAvcVolumeState_def)

lemma getFeatureValue_HifiMode:
  "HifiMode \<in> set (mSupportedAdvancedFeatures s) \<Longrightarrow>
   getFeatureValue K HifiMode s =
     Defined (property_get_int32 (PROPERTY_HIFI_DAC_MODE K) (HIFI_MODE_DEFAULT K) s)"
  by (simp add: getFeatureValue_def feature_available_iff getHifiModeState_def)

lemma setFeatureValue_AVCVolume:
  "AVCVolume \<in> set (mSupportedAdvancedFeatures s) \<Longrightarrow>
   setFeatureValue K AVCVolume v s = writeAvcVolumeState K v s"
  by (simp add: setFeatureValue_def feature_available_iff)

lemma setFeatureValue_HifiMode:
  "HifiMode \<in> set (mSupportedAdvancedFeatures s) \<Longrightarrow>
   setFeatureValue K HifiMode v s = writeHifiModeState K v s"
  by (simp add: setFeatureValue_def feature_available_iff)

section \<open>What the constructor leaves behind\<close>

lemma DacAdvancedControl_no_directory:
  "dir_entries w (COMMON_ES9218_PATH K) = None \<Longrightarrow> DacAdvancedControl K w = Inl FilesystemError"
  by (simp add: DacAdvancedControl_def)

lemma DacAdvancedControl_not_found:
  "dir_entries w (COMMON_ES9218_PATH K) = Some es \<Longrightarrow> find_es9218 es = [] \<Longrightarrow>
   DacAdvancedControl K w =
     Inr (w\<lparr>mDacBasePath := [], avcPath := [], hifiPath := [], mSupportedAdvancedFeatures := []\<rparr>)"
  by (simp add: DacAdvancedControl_def)

lemma DacAdvancedControl_directory:
  "DacAdvancedControl K w = Inr s \<Longrightarrow> \<exists>es. dir_entries w (COMMON_ES9218_PATH K) = Some es"
  by (cases "dir_entries w (COMMON_ES9218_PATH K)") (simp_all add: DacAdvancedControl_def)

lemma DacAdvancedControl_Inr:
  assumes d: "dir_entries w (COMMON_ES9218_PATH K) = Some es"
    and c: "DacAdvancedControl K w = Inr s"
  shows "s =
      (let s0 = w\<lparr>mDacBasePath := find_es9218 es, avcPath := [], hifiPath := [],
                  mSupportedAdvancedFeatures := []\<rparr>
       in if mDacBasePath s0 = [] then s0
          else
            (let s1 = s0\<lparr>avcPath := mDacBasePath s0 @ AVC_VOLUME K,
                          hifiPath := mDacBasePath s0 @ HIFI_MODE K\<rparr>;
                 s2 = (if exists_file s1 (avcPath s1)
                       then (let a = s1\<lparr>mSupportedAdvancedFeatures :=
                                          mSupportedAdvancedFeatures s1 @ [AVCVolume]\<rparr>
                             in snd (writeAvcVolumeState K (getAvcVolumeState K a) a))
                       else s1);
                 s3 = (if exists_file s2 (hifiPath s2)
                       then (let h = s2\<lparr>mSupportedAdvancedFeatures :=
                                          mSupportedAdvancedFeatures s2 @ [HifiMode]\<rparr>
                             in snd (writeHifiModeState K (getHifiModeState K h) h))
                       else s2)
             in s3))"
  using d c by (simp add: DacAdvancedControl_def)

lemma DacAdvancedControl_members:
  assumes d: "dir_entries w (COMMON_ES9218_PATH K) = Some es"
    and c: "DacAdvancedControl K w = Inr s"
  shows "mDacBasePath s = find_es9218 es"
    and "mSupportedAdvancedFeatures s =
           (if find_es9218 es \<noteq> [] \<and> exists_file w (find_es9218 es @ AVC_VOLUME K)
            then [AVCVolume] else []) @
           (if find_es9218 es \<noteq> [] \<and> exists_file w (find_es9218 es @ HIFI_MODE K)
            then [HifiMode] else [])"
    and "find_es9218 es \<noteq> [] \<Longrightarrow> avcPath s = find_es9218 es @ AVC_VOLUME K"
    and "find_es9218 es \<noteq> [] \<Longrightarrow> hifiPath s = find_es9218 es @ HIFI_MODE K"
    and "prop_writable s = prop_writable w"
    and "file_writable s = file_writable w"
    and "dir_entries s = dir_entries w"
proof -
  note e = DacAdvancedControl_Inr [OF d c]
  show "mDacBasePath s = find_es9218 es"
    by (simp add: e Let_def writeAvcVolumeState_fields writeHifiModeState_fields)
  show "mSupportedAdvancedFeatures s =
           (if find_es9218 es \<noteq> [] \<and> exists_file w (find_es9218 es @ AVC_VOLUME K)
            then [AVCVolume] else []) @
           (if find_es9218 es \<noteq> [] \<and> exists_file w (find_es9218 es @ HIFI_MODE K)
            then [HifiMode] else [])"
    by (simp add: e Let_def exists_file_def writeAvcVolumeState_fields writeHifiModeState_fields)
  show "find_es9218 es \<noteq> [] \<Longrightarrow> avcPath s = find_es9218 es @ AVC_VOLUME K"
    by (simp add: e Let_def writeAvcVolumeState_fields writeHifiModeState_fields)
  show "find_es9218 es \<noteq> [] \<Longrightarrow> hifiPath s = find_es9218 es @ HIFI_MODE K"
    by (simp add: e Let_def writeAvcVolumeState_fields writeHifiModeState_fields)
  show "prop_writable s = prop_writable w"
    by (simp add: e Let_def writeAvcVolumeState_fields writeHifiModeState_fields)
  show "file_writable s = file_writable w"
    by (simp add: e Let_def writeAvcVolumeState_fields writeHifiModeState_fields)
  show "dir_entries s = dir_entries w"
    by (simp add: e Let_def writeAvcVolumeState_fields writeHifiModeState_fields)
qed

lemma DacAdvancedControl_props_refused:
  assumes d: "dir_entries w (COMMON_ES9218_PATH K) = Some es"
    and c: "DacAdvancedControl K w = Inr s"
    and r: "\<And>k. \<not> prop_writable w k"
  shows "props s = props w"
  by (simp add: DacAdvancedControl_Inr [OF d c] Let_def writeAvcVolumeState_fields
      writeHifiModeState_fields r)

lemma DacAdvancedControl_props_other:
  assumes d: "dir_entries w (COMMON_ES9218_PATH K) = Some es"
    and c: "DacAdvancedControl K w = Inr s"
    and k: "k \<noteq> PROPERTY_HIFI_DAC_AVC_VOLUME K"
    and h: "\<not> exists_file w (find_es9218 es @ HIFI_MODE K)"
  shows "props s k = props w k"
  using k h
  by (auto simp: DacAdvancedControl_Inr [OF d c] Let_def exists_file_def
      writeAvcVolumeState_fields writeHifiModeState_fields)

lemma find_es9218_none:
  "\<forall>(p, is_dir) \<in> set es. is_dir \<longrightarrow> \<not> find_substr ''0048'' p \<Longrightarrow> find_es9218 es = []"
  by (induction es) auto

section \<open>The example devices, constructed\<close>

lemma K0_fields:
  "COMMON_ES9218_PATH K0 = ''/sys/es9218/''"
  "AVC_VOLUME K0 = ''/avc_volume''"
  "HIFI_MODE K0 = ''/headset_type''"
  "PROPERTY_HIFI_DAC_AVC_VOLUME K0 = ''persist.dac.avc_volume''"
  "PROPERTY_HIFI_DAC_MODE K0 = ''persist.dac.mode''"
  "AVC_VOLUME_DEFAULT K0 = - 14"
  "HIFI_MODE_DEFAULT K0 = 0"
  by (simp_all add: K0_def)

lemma to_string_examples:
  "to_string (- 10) = ''-10''"
  "to_string 10 = ''10''"
  "to_string (- 24) = ''-24''"
  "to_string 24 = ''24''"
  "to_string 2 = ''2''"
  "to_string 7 = ''7''"
  "to_string 100 = ''100''"
  "to_string (- 100) = ''-100''"
  "to_string (- 2147483648) = ''-2147483648''"
  "to_string 2147483648 = ''2147483648''"
  by (simp_all add: to_string_def dec_digits.simps digit_char_def)

lemma sint_examples:
  "sint (- 10 :: int32_t) = - 10"
  "sint (- 24 :: int32_t) = - 24"
  "sint (2 :: int32_t) = 2"
  "sint (7 :: int32_t) = 7"
  "sint (100 :: int32_t) = 100"
  "sint (- 100 :: int32_t) = - 100"
  "sint (- 2147483648 :: int32_t) = - 2147483648"
  "sint (- (- 2147483648) :: int32_t) = - 2147483648"
  by simp_all

lemma strtoimax_abc: "strtoimax ''abc'' = None"
  by (simp add: strtoimax_def isspace_def strip_sign_def radix_split_def is_digit_of_def
      digit_value_def)

lemma strtoimax_12abc: "strtoimax ''12abc'' = Some 12"
  by (simp add: strtoimax_def isspace_def strip_sign_def radix_split_def is_digit_of_def
      digit_value_def digits_value_def)

lemma to_string_minus_5: "to_string (- 5) = ''-5''"
  by (simp add: to_string_def dec_digits.simps digit_char_def)

lemma not_digit_a: "\<not> is_digit_of 10 CHR ''a''"
  by (simp add: is_digit_of_def digit_value_def)

lemma to_string_12: "to_string 12 = ''12''"
  by (simp add: to_string_def dec_digits.simps digit_char_def)

lemma dir_entries_w0:
  "dir_entries w0 (COMMON_ES9218_PATH K0) =
     Some [(''/sys/es9218/module'', False), (''/sys/es9218/6-0048'', True)]"
  by (simp add: w0_def K0_def)

lemma construct_w0: "DacAdvancedControl K0 w0 = Inr s0"
  by (simp add: s0_def DacAdvancedControl_def dir_entries_w0)


lemma s0_supported: "mSupportedAdvancedFeatures s0 = [AVCVolume, HifiMode]"
  using DacAdvancedControl_members(2) [OF dir_entries_w0 construct_w0]
  by (simp add: exists_file_def w0_def K0_def)

lemma s0_paths:
  "avcPath s0 = ''/sys/es9218/6-0048/avc_volume''"
  "hifiPath s0 = ''/sys/es9218/6-0048/headset_type''"
  using DacAdvancedControl_members(3,4) [OF dir_entries_w0 construct_w0]
  by (simp_all add: K0_def)

lemma s0_writable: "prop_writable s0 = (\<lambda>k. True)" "file_writable s0 = (\<lambda>p. True)"
  using DacAdvancedControl_members(5,6) [OF dir_entries_w0 construct_w0]
  by (simp_all add: w0_def)


lemma dir_entries_w_ro:
  "dir_entries w_ro (COMMON_ES9218_PATH K0) =
     Some [(''/sys/es9218/module'', False), (''/sys/es9218/6-0048'', True)]"
  by (simp add: w_ro_def w0_def K0_def)

lemma construct_w_ro: "DacAdvancedControl K0 w_ro = Inr s_ro"
  by (simp add: s_ro_def DacAdvancedControl_def dir_entries_w_ro)

lemma s_ro_supported: "mSupportedAdvancedFeatures s_ro = [AVCVolume, HifiMode]"
  using DacAdvancedControl_members(2) [OF dir_entries_w_ro construct_w_ro]
  by (simp add: exists_file_def w_ro_def w0_def K0_def)

lemma s_ro_paths: "avcPath s_ro = ''/sys/es9218/6-0048/avc_volume''"
  using DacAdvancedControl_members(3) [OF dir_entries_w_ro construct_w_ro]
  by (simp add: K0_def)

lemma s_ro_writable: "prop_writable s_ro = (\<lambda>k. False)"
  using DacAdvancedControl_members(5) [OF dir_entries_w_ro construct_w_ro]
  by (simp add: w_ro_def)

lemma s_ro_props: "props s_ro = [''persist.dac.mode'' \<mapsto> ''abc'']"
  using DacAdvancedControl_props_refused [OF dir_entries_w_ro construct_w_ro]
  by (simp add: w_ro_def)

lemma dir_entries_w_avc:
  "dir_entries w_avc (COMMON_ES9218_PATH K0) =
     Some [(''/sys/es9218/module'', False), (''/sys/es9218/6-0048'', True)]"
  by (simp add: w_avc_def w0_def K0_def)

lemma construct_w_avc: "DacAdvancedControl K0 w_avc = Inr s_avc"
  by (simp add: s_avc_def DacAdvancedControl_def dir_entries_w_avc)

lemma s_avc_supported: "mSupportedAdvancedFeatures s_avc = [AVCVolume]"
  using DacAdvancedControl_members(2) [OF dir_entries_w_avc construct_w_avc]
  by (simp add: exists_file_def w_avc_def w0_def K0_def)

lemma s_avc_mode_property: "props s_avc ''persist.dac.mode'' = Some ''2''"
  using DacAdvancedControl_props_other [OF dir_entries_w_avc construct_w_avc,
      of "''persist.dac.mode''"]
  by (simp add: exists_file_def w_avc_def w0_def K0_def)

lemma dir_entries_w_none:
  "dir_entries w_none (COMMON_ES9218_PATH K0) =
     Some [(''/sys/es9218/module'', True), (''/sys/es9218/0048.log'', False)]"
  by (simp add: w_none_def K0_def)

lemma dir_entries_w_held:
  "dir_entries w_held (COMMON_ES9218_PATH K0) =
     Some [(''/sys/es9218/module'', False), (''/sys/es9218/6-0048'', True)]"
  by (simp add: w_held_def w0_def K0_def)

lemma construct_w_held: "DacAdvancedControl K0 w_held = Inr s_held"
  by (simp add: s_held_def DacAdvancedControl_def dir_entries_w_held)

lemma s_held_supported: "mSupportedAdvancedFeatures s_held = [AVCVolume, HifiMode]"
  using DacAdvancedControl_members(2) [OF dir_entries_w_held construct_w_held]
  by (simp add: exists_file_def w_held_def w0_def K0_def)

lemma s_held_writable: "prop_writable s_held = (\<lambda>k. False)"
  using DacAdvancedControl_members(5) [OF dir_entries_w_held construct_w_held]
  by (simp add: w_held_def)

lemma s_held_props: "props s_held = [''persist.dac.avc_volume'' \<mapsto> ''-5'']"
  using DacAdvancedControl_props_refused [OF dir_entries_w_held construct_w_held]
  by (simp add: w_held_def)

lemma s_held_get: "getFeatureValue K0 AVCVolume s_held = Defined (- 5)"
proof -
  have p: "props s_held (PROPERTY_HIFI_DAC_AVC_VOLUME K0) = Some (to_string (sint (- 5 :: int32_t)))"
    by (simp add: s_held_props K0_fields to_string_minus_5)
  show ?thesis
    by (simp add: getFeatureValue_AVCVolume s_held_supported property_get_int32_to_string [OF p])
qed

lemma s_junk_supported: "mSupportedAdvancedFeatures s_junk = [AVCVolume, HifiMode]"
  by (simp add: s_junk_def s0_supported)

lemma s_junk_props: "props s_junk = [''persist.dac.mode'' \<mapsto> ''12abc'']"
  by (simp add: s_junk_def w_junk_def)

section \<open>The claims\<close>

text \<open>
  C1. For AVCVolume and for HifiMode, when the feature is supported: if the property
  service accepts the write, setFeatureValue with a value followed by getFeatureValue returns
  that value, for every 32-bit value and so for -24 .. 0 and for 0, 1, 2; if the service
  refuses the write, the property store is left as it was and getFeatureValue returns what it
  returned before the call.
\<close>

theorem set_then_get_round_trip:
  assumes "feature \<in> set (mSupportedAdvancedFeatures s)"
  shows "(feature = AVCVolume \<and> prop_writable s (PROPERTY_HIFI_DAC_AVC_VOLUME K) \<longrightarrow>
            getFeatureValue K feature (snd (setFeatureValue K feature v s)) = Defined v) \<and>
         (feature = HifiMode \<and> prop_writable s (PROPERTY_HIFI_DAC_MODE K) \<longrightarrow>
            getFeatureValue K feature (snd (setFeatureValue K feature v s)) = Defined v) \<and>
         (feature = AVCVolume \<and> \<not> prop_writable s (PROPERTY_HIFI_DAC_AVC_VOLUME K) \<longrightarrow>
            props (snd (setFeatureValue K feature v s)) = props s \<and>
            getFeatureValue K feature (snd (setFeatureValue K feature v s)) =
              getFeatureValue K feature s) \<and>
         (feature = HifiMode \<and> \<not> prop_writable s (PROPERTY_HIFI_DAC_MODE K) \<longrightarrow>
            props (snd (setFeatureValue K feature v s)) = props s \<and>
            getFeatureValue K feature (snd (setFeatureValue K feature v s)) =
              getFeatureValue K feature s)"
proof (intro conjI impI)
  assume a: "feature = AVCVolume \<and> prop_writable s (PROPERTY_HIFI_DAC_AVC_VOLUME K)"
  with assms have m: "AVCVolume \<in> set (mSupportedAdvancedFeatures s)" by simp
  have p: "props (snd (writeAvcVolumeState K v s)) (PROPERTY_HIFI_DAC_AVC_VOLUME K) =
             Some (to_string (sint v))"
    using a by (simp add: writeAvcVolumeState_fields)
  have "getFeatureValue K AVCVolume (snd (writeAvcVolumeState K v s)) = Defined v"
    using m by (simp add: getFeatureValue_AVCVolume writeAvcVolumeState_fields
        property_get_int32_to_string [OF p])
  with a m show "getFeatureValue K feature (snd (setFeatureValue K feature v s)) = Defined v"
    by (simp add: setFeatureValue_AVCVolume)
next
  assume a: "feature = HifiMode \<and> prop_writable s (PROPERTY_HIFI_DAC_MODE K)"
  with assms have m: "HifiMode \<in> set (mSupportedAdvancedFeatures s)" by simp
  have p: "props (snd (writeHifiModeState K v s)) (PROPERTY_HIFI_DAC_MODE K) =
             Some (to_string (sint v))"
    using a by (simp add: writeHifiModeState_fields)
  have "getFeatureValue K HifiMode (snd (writeHifiModeState K v s)) = Defined v"
    using m by (simp add: getFeatureValue_HifiMode writeHifiModeState_fields
        property_get_int32_to_string [OF p])
  with a m show "getFeatureValue K feature (snd (setFeatureValue K feature v s)) = Defined v"
    by (simp add: setFeatureValue_HifiMode)
next
  assume a: "feature = AVCVolume \<and> \<not> prop_writable s (PROPERTY_HIFI_DAC_AVC_VOLUME K)"
  with assms have m: "AVCVolume \<in> set (mSupportedAdvancedFeatures s)" by simp
  from a m show "props (snd (setFeatureValue K feature v s)) = props s"
    by (simp add: setFeatureValue_AVCVolume writeAvcVolumeState_fields)
  from a m show "getFeatureValue K feature (snd (setFeatureValue K feature v s)) =
      getFeatureValue K feature s"
    by (simp add: setFeatureValue_AVCVolume getFeatureValue_AVCVolume
        writeAvcVolumeState_fields property_get_int32_def)
next
  assume a: "feature = HifiMode \<and> \<not> prop_writable s (PROPERTY_HIFI_DAC_MODE K)"
  with assms have m: "HifiMode \<in> set (mSupportedAdvancedFeatures s)" by simp
  from a m show "props (snd (setFeatureValue K feature v s)) = props s"
    by (simp add: setFeatureValue_HifiMode writeHifiModeState_fields)
  from a m show "getFeatureValue K feature (snd (setFeatureValue K feature v s)) =
      getFeatureValue K feature s"
    by (simp add: setFeatureValue_HifiMode getFeatureValue_HifiMode
        writeHifiModeState_fields property_get_int32_def)
qed

theorem set_then_get_round_trip_witness:
  "AVCVolume \<in> set (mSupportedAdvancedFeatures s0) \<and>
   prop_writable s0 (PROPERTY_HIFI_DAC_AVC_VOLUME K0) \<and>
   getFeatureValue K0 AVCVolume (snd (setFeatureValue K0 AVCVolume (- 24) s0)) = Defined (- 24) \<and>
   HifiMode \<in> set (mSupportedAdvancedFeatures s0) \<and>
   prop_writable s0 (PROPERTY_HIFI_DAC_MODE K0) \<and>
   getFeatureValue K0 HifiMode (snd (setFeatureValue K0 HifiMode 2 s0)) = Defined 2 \<and>
   AVCVolume \<in> set (mSupportedAdvancedFeatures s_held) \<and>
   \<not> prop_writable s_held (PROPERTY_HIFI_DAC_AVC_VOLUME K0) \<and>
   getFeatureValue K0 AVCVolume s_held = Defined (- 5) \<and>
   props (snd (setFeatureValue K0 AVCVolume (- 10) s_held)) = props s_held \<and>
   getFeatureValue K0 AVCVolume (snd (setFeatureValue K0 AVCVolume (- 10) s_held)) = Defined (- 5) \<and>
   HifiMode \<in> set (mSupportedAdvancedFeatures s_held) \<and>
   \<not> prop_writable s_held (PROPERTY_HIFI_DAC_MODE K0) \<and>
   props (snd (setFeatureValue K0 HifiMode 2 s_held)) = props s_held \<and>
   getFeatureValue K0 HifiMode (snd (setFeatureValue K0 HifiMode 2 s_held)) =
     getFeatureValue K0 HifiMode s_held"
proof -
  have a: "AVCVolume \<in> set (mSupportedAdvancedFeatures s0)"
    and h: "HifiMode \<in> set (mSupportedAdvancedFeatures s0)"
    and a': "AVCVolume \<in> set (mSupportedAdvancedFeatures s_held)"
    and h': "HifiMode \<in> set (mSupportedAdvancedFeatures s_held)"
    by (simp_all add: s0_supported s_held_supported)
  have wa: "prop_writable s0 (PROPERTY_HIFI_DAC_AVC_VOLUME K0)"
    and wh: "prop_writable s0 (PROPERTY_HIFI_DAC_MODE K0)"
    and ra: "\<not> prop_writable s_held (PROPERTY_HIFI_DAC_AVC_VOLUME K0)"
    and rh: "\<not> prop_writable s_held (PROPERTY_HIFI_DAC_MODE K0)"
    by (simp_all add: s0_writable s_held_writable)
  from set_then_get_round_trip [OF a, of K0 "- 24"] set_then_get_round_trip [OF h, of K0 2]
    set_then_get_round_trip [OF a', of K0 "- 10"] set_then_get_round_trip [OF h', of K0 2]
    a h a' h' wa wh ra rh s_held_get
  show ?thesis by simp
qed

theorem round_trip_fails_when_store_refuses:
  "AVCVolume \<in> set (mSupportedAdvancedFeatures s_held) \<and>
   - 24 \<le> sint (- 10 :: int32_t) \<and> sint (- 10 :: int32_t) \<le> 0 \<and>
   props s_held ''persist.dac.avc_volume'' = Some ''-5'' \<and>
   getFeatureValue K0 AVCVolume (snd (setFeatureValue K0 AVCVolume (- 10) s_held)) =
     Defined (- 5) \<and>
   getFeatureValue K0 AVCVolume (snd (setFeatureValue K0 AVCVolume (- 10) s_held)) \<noteq>
     Defined (- 10)"
proof -
  have a: "AVCVolume \<in> set (mSupportedAdvancedFeatures s_held)"
    by (simp add: s_held_supported)
  have p: "props (snd (setFeatureValue K0 AVCVolume (- 10) s_held)) = props s_held"
    using a by (simp add: setFeatureValue_AVCVolume writeAvcVolumeState_fields s_held_writable)
  have q: "props (snd (setFeatureValue K0 AVCVolume (- 10) s_held)) (PROPERTY_HIFI_DAC_AVC_VOLUME K0) =
             Some (to_string (sint (- 5 :: int32_t)))"
    by (simp add: p s_held_props K0_fields to_string_minus_5)
  have g: "getFeatureValue K0 AVCVolume (snd (setFeatureValue K0 AVCVolume (- 10) s_held)) =
             Defined (- 5)"
    using a
    by (simp add: getFeatureValue_AVCVolume setFeatureValue_supported
        property_get_int32_to_string [OF q])
  show ?thesis using a g by (simp add: s_held_props)
qed

text \<open>
  C2. When AVCVolume is supported and the value v is not the least 32-bit integer,
  setFeatureValue asks for exactly two writes: the decimal text of -v into the kernel
  control file and the decimal text of v into the volume property. A file that can be
  opened then holds -v, and a property store that accepts the write then holds v.
\<close>

theorem avc_kernel_write_is_negated:
  assumes "AVCVolume \<in> set (mSupportedAdvancedFeatures s)"
    and "v \<noteq> - 2147483648"
  shows "io_log (snd (setFeatureValue K AVCVolume v s)) =
           io_log s @ [FileWrite (avcPath s) (to_string (- sint v)),
                       PropertySet (PROPERTY_HIFI_DAC_AVC_VOLUME K) (to_string (sint v))] \<and>
         (file_writable s (avcPath s) \<longrightarrow>
            files (snd (setFeatureValue K AVCVolume v s)) (avcPath s) =
              Some (to_string (- sint v))) \<and>
         (prop_writable s (PROPERTY_HIFI_DAC_AVC_VOLUME K) \<longrightarrow>
            props (snd (setFeatureValue K AVCVolume v s)) (PROPERTY_HIFI_DAC_AVC_VOLUME K) =
              Some (to_string (sint v)))"
proof -
  have n: "sint ((- 1) * v) = - sint v"
    by (rule sint_neg_one_times [OF assms(2)])
  show ?thesis
    by (simp only: setFeatureValue_AVCVolume [OF assms(1)] writeAvcVolumeState_fields n) simp
qed

theorem avc_kernel_write_is_negated_witness:
  "AVCVolume \<in> set (mSupportedAdvancedFeatures s0) \<and>
   (- 10 :: int32_t) \<noteq> - 2147483648 \<and>
   file_writable s0 (avcPath s0) \<and>
   prop_writable s0 (PROPERTY_HIFI_DAC_AVC_VOLUME K0) \<and>
   io_log (snd (setFeatureValue K0 AVCVolume (- 10) s0)) =
     io_log s0 @ [FileWrite ''/sys/es9218/6-0048/avc_volume'' ''10'',
                  PropertySet ''persist.dac.avc_volume'' ''-10''] \<and>
   files (snd (setFeatureValue K0 AVCVolume (- 10) s0)) ''/sys/es9218/6-0048/avc_volume'' =
     Some ''10'' \<and>
   props (snd (setFeatureValue K0 AVCVolume (- 10) s0)) ''persist.dac.avc_volume'' =
     Some ''-10''"
proof -
  have a: "AVCVolume \<in> set (mSupportedAdvancedFeatures s0)"
    by (simp add: s0_supported)
  have v: "(- 10 :: int32_t) \<noteq> - 2147483648"
    by simp
  from avc_kernel_write_is_negated [OF a v, of K0] a v
  show ?thesis
    by (simp add: s0_paths s0_writable K0_fields sint_examples to_string_examples)
qed

theorem avc_negation_wraps_at_int32_min:
  "AVCVolume \<in> set (mSupportedAdvancedFeatures s0) \<and>
   sint (- 2147483648 :: int32_t) = - 2147483648 \<and>
   to_string (- sint (- 2147483648 :: int32_t)) = ''2147483648'' \<and>
   io_log (snd (setFeatureValue K0 AVCVolume (- 2147483648) s0)) =
     io_log s0 @ [FileWrite ''/sys/es9218/6-0048/avc_volume'' ''-2147483648'',
                  PropertySet ''persist.dac.avc_volume'' ''-2147483648''] \<and>
   files (snd (setFeatureValue K0 AVCVolume (- 2147483648) s0))
     ''/sys/es9218/6-0048/avc_volume'' = Some ''-2147483648''"
proof -
  have a: "AVCVolume \<in> set (mSupportedAdvancedFeatures s0)"
    by (simp add: s0_supported)
  have m: "sint ((- 1) * (- 2147483648 :: int32_t)) = - 2147483648"
    by simp
  show ?thesis
    using a
    by (simp only: setFeatureValue_AVCVolume [OF a] writeAvcVolumeState_fields m)
       (simp add: s0_paths s0_writable K0_fields sint_examples to_string_examples)
qed

text \<open>
  C3. For a feature that is not in the supported list, whatever the property store holds,
  getFeatureValue returns -1 and setFeatureValue returns false and leaves every file, every
  property and the log of writes as they were.
\<close>

theorem unsupported_feature_is_refused:
  assumes "feature \<notin> set (mSupportedAdvancedFeatures s)"
  shows "getFeatureValue K feature s = Defined (- 1) \<and>
         setFeatureValue K feature v s = (False, s)"
  using assms by (simp add: getFeatureValue_def setFeatureValue_def feature_available_iff)

theorem unsupported_feature_is_refused_witness:
  "HifiMode \<notin> set (mSupportedAdvancedFeatures s_avc) \<and>
   props s_avc ''persist.dac.mode'' = Some ''2'' \<and>
   getFeatureValue K0 HifiMode s_avc = Defined (- 1) \<and>
   setFeatureValue K0 HifiMode 1 s_avc = (False, s_avc)"
proof -
  have h: "HifiMode \<notin> set (mSupportedAdvancedFeatures s_avc)"
    by (simp add: s_avc_supported)
  from unsupported_feature_is_refused [OF h, of K0 1] h s_avc_mode_property
  show ?thesis by simp
qed

text \<open>
  C4. The code answers the other way round. On the example device the property service accepts the
  write of -10 to the volume property, the store then holds -10, and setFeatureValue returns
  false. On the device whose property service refuses every write the store keeps what it
  had and setFeatureValue returns true. In both cases the kernel file was written. So the
  returned boolean is the negation of the property write's success: the cast to bool turns
  the 0 that property_set returns on success into false.
\<close>

theorem setFeatureValue_returns_false_on_success:
  "AVCVolume \<in> set (mSupportedAdvancedFeatures s0) \<and>
   prop_writable s0 (PROPERTY_HIFI_DAC_AVC_VOLUME K0) \<and>
   props (snd (setFeatureValue K0 AVCVolume (- 10) s0)) ''persist.dac.avc_volume'' =
     Some ''-10'' \<and>
   fst (setFeatureValue K0 AVCVolume (- 10) s0) = False \<and>
   AVCVolume \<in> set (mSupportedAdvancedFeatures s_ro) \<and>
   props (snd (setFeatureValue K0 AVCVolume (- 10) s_ro)) = props s_ro \<and>
   files (snd (setFeatureValue K0 AVCVolume (- 10) s_ro)) ''/sys/es9218/6-0048/avc_volume'' =
     Some ''10'' \<and>
   fst (setFeatureValue K0 AVCVolume (- 10) s_ro) = True"
proof -
  have a: "AVCVolume \<in> set (mSupportedAdvancedFeatures s0)"
    and b: "AVCVolume \<in> set (mSupportedAdvancedFeatures s_ro)"
    by (simp_all add: s0_supported s_ro_supported)
  have fw: "file_writable s_ro = (\<lambda>p. True)"
    using DacAdvancedControl_members(6) [OF dir_entries_w_ro construct_w_ro]
    by (simp add: w_ro_def w0_def)
  show ?thesis
    using a b
    by (simp add: setFeatureValue_AVCVolume writeAvcVolumeState_fields
        writeAvcVolumeState_result s0_writable s_ro_writable fw s_ro_paths K0_fields
        sint_examples to_string_examples)
qed

text \<open>
  C5. If AVCVolume is supported, getSupportedAdvancedFeatureValues hands the callback the
  range -24 .. 0 with step 1 (and no enumerated states); if HifiMode is supported, it hands
  over the three pairs Normal/0, High Impedance/1, AUX/2 in this order (the values are the
  decimal texts the source writes); for a feature that is not supported the callback is
  not invoked.
\<close>

theorem supported_feature_values:
  "(AVCVolume \<in> set (mSupportedAdvancedFeatures s) \<longrightarrow>
      getSupportedAdvancedFeatureValues AVCVolume s =
        Some \<lparr>range_fs = Defined \<lparr>min_r = - 24, max_r = 0, step_r = 1\<rparr>, states_fs = []\<rparr>) \<and>
   (HifiMode \<in> set (mSupportedAdvancedFeatures s) \<longrightarrow>
      map_option states_fs (getSupportedAdvancedFeatureValues HifiMode s) =
        Some [(''Normal'', ''0''), (''High Impedance'', ''1''), (''AUX'', ''2'')]) \<and>
   (feature \<notin> set (mSupportedAdvancedFeatures s) \<longrightarrow>
      getSupportedAdvancedFeatureValues feature s = None)"
  by (simp add: getSupportedAdvancedFeatureValues_def find_feature_iff getAvcVolumeStates_def
      getHifiModeStates_def hifi_modes_def)

theorem supported_feature_values_witness:
  "AVCVolume \<in> set (mSupportedAdvancedFeatures s0) \<and>
   HifiMode \<in> set (mSupportedAdvancedFeatures s0) \<and>
   OtherFeature 5 \<notin> set (mSupportedAdvancedFeatures s0) \<and>
   getSupportedAdvancedFeatureValues AVCVolume s0 =
     Some \<lparr>range_fs = Defined \<lparr>min_r = - 24, max_r = 0, step_r = 1\<rparr>, states_fs = []\<rparr> \<and>
   map_option states_fs (getSupportedAdvancedFeatureValues HifiMode s0) =
     Some [(''Normal'', ''0''), (''High Impedance'', ''1''), (''AUX'', ''2'')] \<and>
   getSupportedAdvancedFeatureValues (OtherFeature 5) s0 = None"
  using supported_feature_values [of s0 "OtherFeature 5"]
  by (simp add: s0_supported)

text \<open>
  C6. The code does not keep this on every input. When the scanned directory does not exist,
  no subdirectory matches, and the constructor does not return: the directory iterator
  throws and nothing catches it. When the directory exists and holds no match, the
  constructor returns with an empty base path and an empty supported list, as the claim says.
\<close>

theorem construction_fails_without_scanned_directory:
  "dir_entries w_gone (COMMON_ES9218_PATH K0) = None \<and>
   DacAdvancedControl K0 w_gone = Inl FilesystemError \<and>
   dir_entries w_none (COMMON_ES9218_PATH K0) =
     Some [(''/sys/es9218/module'', True), (''/sys/es9218/0048.log'', False)] \<and>
   DacAdvancedControl K0 w_none =
     Inr (w_none\<lparr>mDacBasePath := [], avcPath := [], hifiPath := [],
                  mSupportedAdvancedFeatures := []\<rparr>)"
proof -
  have g: "dir_entries w_gone (COMMON_ES9218_PATH K0) = None"
    by (simp add: w_gone_def)
  have n: "DacAdvancedControl K0 w_none =
     Inr (w_none\<lparr>mDacBasePath := [], avcPath := [], hifiPath := [],
                  mSupportedAdvancedFeatures := []\<rparr>)"
    by (rule DacAdvancedControl_not_found [OF dir_entries_w_none]) simp
  from g DacAdvancedControl_no_directory [OF g] dir_entries_w_none n
  show ?thesis by simp
qed

text \<open>
  What the constructor does keep: if the scanned directory can be listed and none of its
  entries is a directory whose path contains 0048, the constructor returns with an empty
  base path and an empty supported list; from then on, after any sequence of calls,
  getSupportedAdvancedFeatures returns the empty list, getSupportedAdvancedFeatureValues does
  not invoke its callback, getFeatureValue returns -1 and setFeatureValue returns false and
  changes nothing.
\<close>

theorem no_codec_directory_disables_everything:
  assumes "dir_entries w (COMMON_ES9218_PATH K) = Some es"
    and "\<forall>(p, is_dir) \<in> set es. is_dir \<longrightarrow> \<not> find_substr ''0048'' p"
  shows "\<exists>s. DacAdvancedControl K w = Inr s \<and> mDacBasePath s = [] \<and>
              mSupportedAdvancedFeatures s = [] \<and>
              getSupportedAdvancedFeatures (run K calls s) = [] \<and>
              getSupportedAdvancedFeatureValues feature (run K calls s) = None \<and>
              getFeatureValue K feature (run K calls s) = Defined (- 1) \<and>
              setFeatureValue K feature v (run K calls s) = (False, run K calls s)"
proof -
  have none: "find_es9218 es = []"
    by (rule find_es9218_none [OF assms(2)])
  define s where
    "s = w\<lparr>mDacBasePath := [], avcPath := [], hifiPath := [], mSupportedAdvancedFeatures := []\<rparr>"
  have c: "DacAdvancedControl K w = Inr s"
    unfolding s_def by (rule DacAdvancedControl_not_found [OF assms(1) none])
  have e: "mSupportedAdvancedFeatures (run K calls s) = []"
    by (simp add: run_supported s_def)
  have "mDacBasePath s = []" "mSupportedAdvancedFeatures s = []"
    by (simp_all add: s_def)
  moreover have "getSupportedAdvancedFeatures (run K calls s) = []"
    by (simp add: getSupportedAdvancedFeatures_def e)
  moreover have "getSupportedAdvancedFeatureValues feature (run K calls s) = None"
    by (simp add: getSupportedAdvancedFeatureValues_def e)
  moreover have "getFeatureValue K feature (run K calls s) = Defined (- 1)"
    by (simp add: getFeatureValue_def e)
  moreover have "setFeatureValue K feature v (run K calls s) = (False, run K calls s)"
    by (simp add: setFeatureValue_def e)
  ultimately show ?thesis using c by blast
qed

theorem no_codec_directory_disables_everything_witness:
  "dir_entries w_none (COMMON_ES9218_PATH K0) =
     Some [(''/sys/es9218/module'', True), (''/sys/es9218/0048.log'', False)] \<and>
   find_substr ''0048'' ''/sys/es9218/0048.log'' \<and>
   (\<exists>s. DacAdvancedControl K0 w_none = Inr s \<and> mDacBasePath s = [] \<and>
        mSupportedAdvancedFeatures s = [] \<and>
        getSupportedAdvancedFeatures (run K0 [SetFeatureValue AVCVolume (- 3)] s) = [] \<and>
        getSupportedAdvancedFeatureValues AVCVolume (run K0 [SetFeatureValue AVCVolume (- 3)] s) = None \<and>
        getFeatureValue K0 AVCVolume (run K0 [SetFeatureValue AVCVolume (- 3)] s) = Defined (- 1) \<and>
        setFeatureValue K0 AVCVolume (- 10) (run K0 [SetFeatureValue AVCVolume (- 3)] s) =
          (False, run K0 [SetFeatureValue AVCVolume (- 3)] s))"
proof -
  have h: "\<forall>(p, is_dir) \<in> set [(''/sys/es9218/module'', True), (''/sys/es9218/0048.log'', False)].
             is_dir \<longrightarrow> \<not> find_substr ''0048'' p"
    by simp
  have f: "find_substr ''0048'' ''/sys/es9218/0048.log''"
    by simp
  from no_codec_directory_disables_everything [OF dir_entries_w_none h,
      of "[SetFeatureValue AVCVolume (- 3)]" AVCVolume "- 10"] dir_entries_w_none f
  show ?thesis by blast
qed



text \<open>
  C8. For a supported feature, getFeatureValue returns the feature's default
  (AVC_VOLUME_DEFAULT for AVCVolume, HIFI_MODE_DEFAULT for HifiMode) when the persisted
  property is absent, is empty, has no number at its start that the platform's conversion
  can read, or holds a number outside the 32-bit range. When the conversion reads a number
  within the 32-bit range from the start of the text, getFeatureValue returns that number.
  In particular, a non-zero decimal number within that range followed by any character that
  is no decimal digit, and by anything after it, gives the number: the text 12abc, which is
  not an integer as a whole, gives 12 and not the default.
\<close>

theorem property_text_decides_feature_value:
  "(AVCVolume \<in> set (mSupportedAdvancedFeatures s) \<and>
    (props s (PROPERTY_HIFI_DAC_AVC_VOLUME K) = None \<or>
     (\<exists>txt. props s (PROPERTY_HIFI_DAC_AVC_VOLUME K) = Some txt \<and>
        (txt = [] \<or> strtoimax txt = None \<or>
         (\<exists>n. strtoimax txt = Some n \<and> (n < - (2 ^ 31) \<or> 2 ^ 31 - 1 < n))))) \<longrightarrow>
    getFeatureValue K AVCVolume s = Defined (AVC_VOLUME_DEFAULT K)) \<and>
   (HifiMode \<in> set (mSupportedAdvancedFeatures s) \<and>
    (props s (PROPERTY_HIFI_DAC_MODE K) = None \<or>
     (\<exists>txt. props s (PROPERTY_HIFI_DAC_MODE K) = Some txt \<and>
        (txt = [] \<or> strtoimax txt = None \<or>
         (\<exists>n. strtoimax txt = Some n \<and> (n < - (2 ^ 31) \<or> 2 ^ 31 - 1 < n))))) \<longrightarrow>
    getFeatureValue K HifiMode s = Defined (HIFI_MODE_DEFAULT K)) \<and>
   (AVCVolume \<in> set (mSupportedAdvancedFeatures s) \<and>
    props s (PROPERTY_HIFI_DAC_AVC_VOLUME K) = Some txt \<and> strtoimax txt = Some n \<and>
    - (2 ^ 31) \<le> n \<and> n \<le> 2 ^ 31 - 1 \<longrightarrow>
    getFeatureValue K AVCVolume s = Defined (word_of_int n)) \<and>
   (HifiMode \<in> set (mSupportedAdvancedFeatures s) \<and>
    props s (PROPERTY_HIFI_DAC_MODE K) = Some txt \<and> strtoimax txt = Some n \<and>
    - (2 ^ 31) \<le> n \<and> n \<le> 2 ^ 31 - 1 \<longrightarrow>
    getFeatureValue K HifiMode s = Defined (word_of_int n)) \<and>
   (AVCVolume \<in> set (mSupportedAdvancedFeatures s) \<and>
    props s (PROPERTY_HIFI_DAC_AVC_VOLUME K) = Some (to_string i @ c # rest) \<and>
    i \<noteq> 0 \<and> \<not> is_digit_of 10 c \<and> - (2 ^ 31) \<le> i \<and> i \<le> 2 ^ 31 - 1 \<longrightarrow>
    getFeatureValue K AVCVolume s = Defined (word_of_int i)) \<and>
   (HifiMode \<in> set (mSupportedAdvancedFeatures s) \<and>
    props s (PROPERTY_HIFI_DAC_MODE K) = Some (to_string i @ c # rest) \<and>
    i \<noteq> 0 \<and> \<not> is_digit_of 10 c \<and> - (2 ^ 31) \<le> i \<and> i \<le> 2 ^ 31 - 1 \<longrightarrow>
    getFeatureValue K HifiMode s = Defined (word_of_int i))"
proof (intro conjI impI)
  assume "AVCVolume \<in> set (mSupportedAdvancedFeatures s) \<and>
    (props s (PROPERTY_HIFI_DAC_AVC_VOLUME K) = None \<or>
     (\<exists>txt. props s (PROPERTY_HIFI_DAC_AVC_VOLUME K) = Some txt \<and>
        (txt = [] \<or> strtoimax txt = None \<or>
         (\<exists>n. strtoimax txt = Some n \<and> (n < - (2 ^ 31) \<or> 2 ^ 31 - 1 < n)))))"
  then show "getFeatureValue K AVCVolume s = Defined (AVC_VOLUME_DEFAULT K)"
    by (simp only: getFeatureValue_AVCVolume property_get_int32_default)
next
  assume "HifiMode \<in> set (mSupportedAdvancedFeatures s) \<and>
    (props s (PROPERTY_HIFI_DAC_MODE K) = None \<or>
     (\<exists>txt. props s (PROPERTY_HIFI_DAC_MODE K) = Some txt \<and>
        (txt = [] \<or> strtoimax txt = None \<or>
         (\<exists>n. strtoimax txt = Some n \<and> (n < - (2 ^ 31) \<or> 2 ^ 31 - 1 < n)))))"
  then show "getFeatureValue K HifiMode s = Defined (HIFI_MODE_DEFAULT K)"
    by (simp only: getFeatureValue_HifiMode property_get_int32_default)
next
  assume "AVCVolume \<in> set (mSupportedAdvancedFeatures s) \<and>
    props s (PROPERTY_HIFI_DAC_AVC_VOLUME K) = Some txt \<and> strtoimax txt = Some n \<and>
    - (2 ^ 31) \<le> n \<and> n \<le> 2 ^ 31 - 1"
  then show "getFeatureValue K AVCVolume s = Defined (word_of_int n)"
    by (simp only: getFeatureValue_AVCVolume property_get_int32_number)
next
  assume "HifiMode \<in> set (mSupportedAdvancedFeatures s) \<and>
    props s (PROPERTY_HIFI_DAC_MODE K) = Some txt \<and> strtoimax txt = Some n \<and>
    - (2 ^ 31) \<le> n \<and> n \<le> 2 ^ 31 - 1"
  then show "getFeatureValue K HifiMode s = Defined (word_of_int n)"
    by (simp only: getFeatureValue_HifiMode property_get_int32_number)
next
  assume a: "AVCVolume \<in> set (mSupportedAdvancedFeatures s) \<and>
    props s (PROPERTY_HIFI_DAC_AVC_VOLUME K) = Some (to_string i @ c # rest) \<and>
    i \<noteq> 0 \<and> \<not> is_digit_of 10 c \<and> - (2 ^ 31) \<le> i \<and> i \<le> 2 ^ 31 - 1"
  then have "strtoimax (to_string i @ c # rest) = Some i"
    by (simp add: strtoimax_to_string_then)
  with a show "getFeatureValue K AVCVolume s = Defined (word_of_int i)"
    by (simp only: getFeatureValue_AVCVolume property_get_int32_number)
next
  assume a: "HifiMode \<in> set (mSupportedAdvancedFeatures s) \<and>
    props s (PROPERTY_HIFI_DAC_MODE K) = Some (to_string i @ c # rest) \<and>
    i \<noteq> 0 \<and> \<not> is_digit_of 10 c \<and> - (2 ^ 31) \<le> i \<and> i \<le> 2 ^ 31 - 1"
  then have "strtoimax (to_string i @ c # rest) = Some i"
    by (simp add: strtoimax_to_string_then)
  with a show "getFeatureValue K HifiMode s = Defined (word_of_int i)"
    by (simp only: getFeatureValue_HifiMode property_get_int32_number)
qed

theorem property_text_decides_feature_value_witness:
  "AVCVolume \<in> set (mSupportedAdvancedFeatures s_ro) \<and>
   HifiMode \<in> set (mSupportedAdvancedFeatures s_ro) \<and>
   props s_ro (PROPERTY_HIFI_DAC_AVC_VOLUME K0) = None \<and>
   props s_ro (PROPERTY_HIFI_DAC_MODE K0) = Some ''abc'' \<and>
   strtoimax ''abc'' = None \<and>
   getFeatureValue K0 AVCVolume s_ro = Defined (- 14) \<and>
   getFeatureValue K0 HifiMode s_ro = Defined 0 \<and>
   AVCVolume \<in> set (mSupportedAdvancedFeatures s_held) \<and>
   props s_held (PROPERTY_HIFI_DAC_AVC_VOLUME K0) = Some ''-5'' \<and>
   strtoimax ''-5'' = Some (- 5) \<and>
   getFeatureValue K0 AVCVolume s_held = Defined (- 5) \<and>
   HifiMode \<in> set (mSupportedAdvancedFeatures s_junk) \<and>
   props s_junk (PROPERTY_HIFI_DAC_MODE K0) = Some (to_string 12 @ CHR ''a'' # ''bc'') \<and>
   to_string 12 @ CHR ''a'' # ''bc'' = ''12abc'' \<and>
   \<not> is_digit_of 10 CHR ''a'' \<and>
   getFeatureValue K0 HifiMode s_junk = Defined 12"
proof -
  have m5: "strtoimax ''-5'' = Some (- 5)"
    using strtoimax_to_string [of "- 5"] by (simp add: to_string_minus_5)
  from property_text_decides_feature_value [of s_ro K0]
    property_text_decides_feature_value [of s_held K0 "''-5''" "- 5"]
    property_text_decides_feature_value [of s_junk K0 _ _ 12 "CHR ''a''" "''bc''"]
  show ?thesis
    by (simp add: s_ro_supported s_ro_props s_held_supported s_held_props s_junk_supported
        s_junk_props K0_fields strtoimax_abc m5 to_string_12 not_digit_a)
qed

theorem numeric_prefix_is_read_as_number:
  "HifiMode \<in> set (mSupportedAdvancedFeatures s_junk) \<and>
   props s_junk (PROPERTY_HIFI_DAC_MODE K0) = Some ''12abc'' \<and>
   HIFI_MODE_DEFAULT K0 = 0 \<and>
   getFeatureValue K0 HifiMode s_junk = Defined 12 \<and>
   getFeatureValue K0 HifiMode s_junk \<noteq> Defined (HIFI_MODE_DEFAULT K0)"
proof -
  have h: "HifiMode \<in> set (mSupportedAdvancedFeatures s_junk)"
    by (simp add: s_junk_supported)
  have p: "props s_junk (PROPERTY_HIFI_DAC_MODE K0) = Some ''12abc''"
    by (simp add: s_junk_props K0_fields)
  have g: "getFeatureValue K0 HifiMode s_junk = Defined 12"
    using property_get_int32_number [OF p strtoimax_12abc, of "HIFI_MODE_DEFAULT K0"]
    by (simp add: getFeatureValue_HifiMode [OF h])
  show ?thesis using h p g by (simp add: K0_fields)
qed

text \<open>
  C9. In every state an object can reach after its construction, the supported list holds
  AVCVolume and HifiMode at most. So for a feature found in the list the switch of
  getFeatureValue and of setFeatureValue takes the AVCVolume case or the HifiMode case, and
  getFeatureValue never returns its unassigned local, for any feature at all.
\<close>

theorem dispatch_never_reaches_default:
  assumes "DacAdvancedControl K w = Inr s"
  shows "set (mSupportedAdvancedFeatures (run K calls s)) \<subseteq> {AVCVolume, HifiMode} \<and>
         getFeatureValue K feature (run K calls s) \<noteq> Indeterminate \<and>
         (feature \<in> set (mSupportedAdvancedFeatures (run K calls s)) \<longrightarrow>
            (feature = AVCVolume \<and>
             getFeatureValue K feature (run K calls s) =
               Defined (getAvcVolumeState K (run K calls s)) \<and>
             setFeatureValue K feature v (run K calls s) =
               writeAvcVolumeState K v (run K calls s)) \<or>
            (feature = HifiMode \<and>
             getFeatureValue K feature (run K calls s) =
               Defined (getHifiModeState K (run K calls s)) \<and>
             setFeatureValue K feature v (run K calls s) =
               writeHifiModeState K v (run K calls s)))"
proof -
  from assms obtain es where d: "dir_entries w (COMMON_ES9218_PATH K) = Some es"
    using DacAdvancedControl_directory by blast
  have sub: "set (mSupportedAdvancedFeatures (run K calls s)) \<subseteq> {AVCVolume, HifiMode}"
    using DacAdvancedControl_members(2) [OF d assms] by (auto simp: run_supported)
  then have cases: "feature \<in> set (mSupportedAdvancedFeatures (run K calls s)) \<Longrightarrow>
      feature = AVCVolume \<or> feature = HifiMode"
    by auto
  have "getFeatureValue K feature (run K calls s) \<noteq> Indeterminate"
    using cases by (auto simp: getFeatureValue_def feature_available_iff)
  moreover have "feature \<in> set (mSupportedAdvancedFeatures (run K calls s)) \<longrightarrow>
            (feature = AVCVolume \<and>
             getFeatureValue K feature (run K calls s) =
               Defined (getAvcVolumeState K (run K calls s)) \<and>
             setFeatureValue K feature v (run K calls s) =
               writeAvcVolumeState K v (run K calls s)) \<or>
            (feature = HifiMode \<and>
             getFeatureValue K feature (run K calls s) =
               Defined (getHifiModeState K (run K calls s)) \<and>
             setFeatureValue K feature v (run K calls s) =
               writeHifiModeState K v (run K calls s))"
    using cases by (auto simp: getFeatureValue_def setFeatureValue_def feature_available_iff)
  ultimately show ?thesis using sub by blast
qed

theorem dispatch_never_reaches_default_witness:
  "DacAdvancedControl K0 w0 = Inr s0 \<and>
   HifiMode \<in> set (mSupportedAdvancedFeatures (run K0 [SetFeatureValue AVCVolume 5] s0)) \<and>
   set (mSupportedAdvancedFeatures (run K0 [SetFeatureValue AVCVolume 5] s0)) \<subseteq>
     {AVCVolume, HifiMode} \<and>
   getFeatureValue K0 HifiMode (run K0 [SetFeatureValue AVCVolume 5] s0) \<noteq> Indeterminate \<and>
   getFeatureValue K0 HifiMode (run K0 [SetFeatureValue AVCVolume 5] s0) =
     Defined (getHifiModeState K0 (run K0 [SetFeatureValue AVCVolume 5] s0)) \<and>
   setFeatureValue K0 HifiMode 1 (run K0 [SetFeatureValue AVCVolume 5] s0) =
     writeHifiModeState K0 1 (run K0 [SetFeatureValue AVCVolume 5] s0) \<and>
   getFeatureValue K0 (OtherFeature 9) (run K0 [SetFeatureValue AVCVolume 5] s0) \<noteq> Indeterminate"
proof -
  have h: "HifiMode \<in> set (mSupportedAdvancedFeatures (run K0 [SetFeatureValue AVCVolume 5] s0))"
    by (simp only: run_supported s0_supported) simp
  from dispatch_never_reaches_default [OF construct_w0, of "[SetFeatureValue AVCVolume 5]" HifiMode 1]
    dispatch_never_reaches_default [OF construct_w0, of "[SetFeatureValue AVCVolume 5]" "OtherFeature 9" 1]
    h construct_w0
  show ?thesis by blast
qed

text \<open>
  C10. setFeatureValue validates no range. For a supported AVCVolume and any 32-bit value v
  it asks for the write of the 32-bit negation of v to the kernel file and of v to the
  property; for a supported HifiMode it asks for the write of v to both. Where the file can
  be opened and the store accepts the write, they hold exactly these texts afterwards. The
  returned boolean is the same for every value.
\<close>

theorem no_range_validation:
  "(AVCVolume \<in> set (mSupportedAdvancedFeatures s) \<longrightarrow>
      io_log (snd (setFeatureValue K AVCVolume v s)) =
        io_log s @ [FileWrite (avcPath s) (to_string (sint (- v))),
                    PropertySet (PROPERTY_HIFI_DAC_AVC_VOLUME K) (to_string (sint v))] \<and>
      (file_writable s (avcPath s) \<longrightarrow>
         files (snd (setFeatureValue K AVCVolume v s)) (avcPath s) =
           Some (to_string (sint (- v)))) \<and>
      (prop_writable s (PROPERTY_HIFI_DAC_AVC_VOLUME K) \<longrightarrow>
         props (snd (setFeatureValue K AVCVolume v s)) (PROPERTY_HIFI_DAC_AVC_VOLUME K) =
           Some (to_string (sint v))) \<and>
      fst (setFeatureValue K AVCVolume v s) = fst (setFeatureValue K AVCVolume v' s)) \<and>
   (HifiMode \<in> set (mSupportedAdvancedFeatures s) \<longrightarrow>
      io_log (snd (setFeatureValue K HifiMode v s)) =
        io_log s @ [FileWrite (hifiPath s) (to_string (sint v)),
                    PropertySet (PROPERTY_HIFI_DAC_MODE K) (to_string (sint v))] \<and>
      (file_writable s (hifiPath s) \<longrightarrow>
         files (snd (setFeatureValue K HifiMode v s)) (hifiPath s) =
           Some (to_string (sint v))) \<and>
      (prop_writable s (PROPERTY_HIFI_DAC_MODE K) \<longrightarrow>
         props (snd (setFeatureValue K HifiMode v s)) (PROPERTY_HIFI_DAC_MODE K) =
           Some (to_string (sint v))) \<and>
      fst (setFeatureValue K HifiMode v s) = fst (setFeatureValue K HifiMode v' s))"
  by (simp add: setFeatureValue_AVCVolume setFeatureValue_HifiMode writeAvcVolumeState_fields
      writeHifiModeState_fields writeAvcVolumeState_result writeHifiModeState_result)

theorem no_range_validation_witness:
  "AVCVolume \<in> set (mSupportedAdvancedFeatures s0) \<and>
   HifiMode \<in> set (mSupportedAdvancedFeatures s0) \<and>
   file_writable s0 (avcPath s0) \<and> file_writable s0 (hifiPath s0) \<and>
   prop_writable s0 (PROPERTY_HIFI_DAC_AVC_VOLUME K0) \<and>
   prop_writable s0 (PROPERTY_HIFI_DAC_MODE K0) \<and>
   io_log (snd (setFeatureValue K0 AVCVolume 100 s0)) =
     io_log s0 @ [FileWrite ''/sys/es9218/6-0048/avc_volume'' ''-100'',
                  PropertySet ''persist.dac.avc_volume'' ''100''] \<and>
   files (snd (setFeatureValue K0 AVCVolume 100 s0)) ''/sys/es9218/6-0048/avc_volume'' =
     Some ''-100'' \<and>
   props (snd (setFeatureValue K0 AVCVolume 100 s0)) ''persist.dac.avc_volume'' = Some ''100'' \<and>
   fst (setFeatureValue K0 AVCVolume 100 s0) = fst (setFeatureValue K0 AVCVolume (- 10) s0) \<and>
   io_log (snd (setFeatureValue K0 HifiMode 7 s0)) =
     io_log s0 @ [FileWrite ''/sys/es9218/6-0048/headset_type'' ''7'',
                  PropertySet ''persist.dac.mode'' ''7''] \<and>
   files (snd (setFeatureValue K0 HifiMode 7 s0)) ''/sys/es9218/6-0048/headset_type'' =
     Some ''7'' \<and>
   props (snd (setFeatureValue K0 HifiMode 7 s0)) ''persist.dac.mode'' = Some ''7'' \<and>
   fst (setFeatureValue K0 HifiMode 7 s0) = fst (setFeatureValue K0 HifiMode 2 s0)"
proof -
  have a: "AVCVolume \<in> set (mSupportedAdvancedFeatures s0)"
    and h: "HifiMode \<in> set (mSupportedAdvancedFeatures s0)"
    by (simp_all add: s0_supported)
  have n: "sint (- 100 :: int32_t) = - 100" "sint (100 :: int32_t) = 100" "sint (7 :: int32_t) = 7"
    by simp_all
  from no_range_validation [of s0 K0 100 "- 10"] no_range_validation [of s0 K0 7 2] a h
  show ?thesis
    by (simp add: s0_paths s0_writable K0_fields n to_string_examples)
qed

end
